theory Spec2Isabelle
  imports Complex_Main "HOL-Library.List_Lexorder" "HOL-Library.Char_ord" "HOL-Library.AList"
begin

section \<open>Floating-point values\<close>

text \<open>
  The script computes with torch and numpy floats. A float is modelled as a real number
  or one of the three special values of IEEE arithmetic. The sign of zero is not
  modelled, and rounding only in the optimizer, where it decides whether a parameter
  moves: elsewhere a finite result is the exact real result. A division of a positive
  number by zero is \<open>PInf\<close>.
\<close>

datatype tfloat = NaN | NInf | Fin real | PInf

fun fneg :: "tfloat \<Rightarrow> tfloat" where
  "fneg NaN = NaN"
| "fneg NInf = PInf"
| "fneg (Fin a) = Fin (- a)"
| "fneg PInf = NInf"

fun fadd :: "tfloat \<Rightarrow> tfloat \<Rightarrow> tfloat" where
  "fadd (Fin a) (Fin b) = Fin (a + b)"
| "fadd NaN y = NaN"
| "fadd x NaN = NaN"
| "fadd PInf NInf = NaN"
| "fadd NInf PInf = NaN"
| "fadd PInf y = PInf"
| "fadd x PInf = PInf"
| "fadd NInf y = NInf"
| "fadd x NInf = NInf"

definition fsub :: "tfloat \<Rightarrow> tfloat \<Rightarrow> tfloat" where
  "fsub x y = fadd x (fneg y)"

text \<open>The product of an infinity and a finite value: its sign, or NaN at zero.\<close>

definition inf_times :: "bool \<Rightarrow> real \<Rightarrow> tfloat" where
  "inf_times positive a =
     (if a = 0 then NaN else if (0 < a) = positive then PInf else NInf)"

fun fmul :: "tfloat \<Rightarrow> tfloat \<Rightarrow> tfloat" where
  "fmul (Fin a) (Fin b) = Fin (a * b)"
| "fmul NaN y = NaN"
| "fmul x NaN = NaN"
| "fmul PInf (Fin b) = inf_times True b"
| "fmul NInf (Fin b) = inf_times False b"
| "fmul (Fin a) PInf = inf_times True a"
| "fmul (Fin a) NInf = inf_times False a"
| "fmul PInf PInf = PInf"
| "fmul NInf NInf = PInf"
| "fmul PInf NInf = NInf"
| "fmul NInf PInf = NInf"

fun fdiv :: "tfloat \<Rightarrow> tfloat \<Rightarrow> tfloat" where
  "fdiv (Fin a) (Fin b) =
     (if b = 0 then (if a = 0 then NaN else if 0 < a then PInf else NInf)
      else Fin (a / b))"
| "fdiv NaN y = NaN"
| "fdiv x NaN = NaN"
| "fdiv (Fin a) PInf = Fin 0"
| "fdiv (Fin a) NInf = Fin 0"
| "fdiv PInf (Fin b) = (if 0 \<le> b then PInf else NInf)"
| "fdiv NInf (Fin b) = (if 0 \<le> b then NInf else PInf)"
| "fdiv PInf y = NaN"
| "fdiv NInf y = NaN"

fun fsqrt :: "tfloat \<Rightarrow> tfloat" where
  "fsqrt (Fin a) = (if a < 0 then NaN else Fin (sqrt a))"
| "fsqrt PInf = PInf"
| "fsqrt x = NaN"

text \<open>Logarithms: \<open>log(0)\<close> is minus infinity, the logarithm of a negative number NaN.\<close>

fun flog_with :: "(real \<Rightarrow> real) \<Rightarrow> tfloat \<Rightarrow> tfloat" where
  "flog_with lg (Fin a) = (if a < 0 then NaN else if a = 0 then NInf else Fin (lg a))"
| "flog_with lg PInf = PInf"
| "flog_with lg x = NaN"

definition fln :: "tfloat \<Rightarrow> tfloat" where
  "fln = flog_with ln"

definition flog2 :: "tfloat \<Rightarrow> tfloat" where
  "flog2 = flog_with (log 2)"

fun ftanh :: "tfloat \<Rightarrow> tfloat" where
  "ftanh (Fin a) = Fin (tanh a)"
| "ftanh PInf = Fin 1"
| "ftanh NInf = Fin (- 1)"
| "ftanh NaN = NaN"

text \<open>Comparisons: every comparison with NaN is false.\<close>

fun flt :: "tfloat \<Rightarrow> tfloat \<Rightarrow> bool" where
  "flt (Fin a) (Fin b) = (a < b)"
| "flt NaN y = False"
| "flt x NaN = False"
| "flt x NInf = False"
| "flt PInf y = False"
| "flt NInf y = True"
| "flt x PInf = True"

definition fgt :: "tfloat \<Rightarrow> tfloat \<Rightarrow> bool" where
  "fgt x y = flt y x"

text \<open>
  \<open>torch.special.entr\<close>, a library function, after its documentation:
  \<open>-x * ln(x)\<close> for \<open>x > 0\<close>, \<open>0\<close> for \<open>x = 0\<close>, minus infinity for \<open>x < 0\<close>.
\<close>

fun entr :: "tfloat \<Rightarrow> tfloat" where
  "entr (Fin a) = (if 0 < a then Fin (- a * ln a) else if a = 0 then Fin 0 else NInf)"
| "entr PInf = NInf"
| "entr NInf = NInf"
| "entr NaN = NaN"

definition fsum :: "tfloat list \<Rightarrow> tfloat" where
  "fsum xs = foldl fadd (Fin 0) xs"

section \<open>Tensors\<close>

text \<open>
  A tensor or array is its shape and its elements in row-major order. A well-formed
  tensor has as many elements as its shape says.
\<close>

record 'a tensor =
  shape :: "nat list"
  data :: "'a list"

definition wf_tensor :: "'a tensor \<Rightarrow> bool" where
  "wf_tensor t = (length (data t) = prod_list (shape t))"

definition tmap :: "('a \<Rightarrow> 'b) \<Rightarrow> 'a tensor \<Rightarrow> 'b tensor" where
  "tmap f t = \<lparr>shape = shape t, data = map f (data t)\<rparr>"

text \<open>\<open>t.mean()\<close>: the sum of all elements over their number (NaN for no element).\<close>

definition tmean :: "tfloat tensor \<Rightarrow> tfloat" where
  "tmean t = fdiv (fsum (data t)) (Fin (real (length (data t))))"

text \<open>\<open>t[None, :, :]\<close>: a leading axis of size one; an IndexError for a tensor of fewer
  than two axes.\<close>

datatype error =
    FileNotFoundError string
  | InvalidFilename
  | IndexError
  | ValueError
  | TypeError
  | LibraryError string

definition unsqueeze0 :: "'a tensor \<Rightarrow> error + 'a tensor" where
  "unsqueeze0 t =
     (if 2 \<le> length (shape t) then Inr \<lparr>shape = 1 # shape t, data = data t\<rparr>
      else Inl IndexError)"

section \<open>The world and the libraries\<close>

text \<open>
  The file system is the list of its files, path and content, in directory order.
  The standard output is the list of the lines \<open>forward\<close> prints, and \<open>events\<close>
  records the writer and file-system calls of the GIF assembler in the order they happen.
\<close>

datatype out_line = ShapeEntropyLine tfloat | LossLine tfloat

datatype event = AppendData string | Remove string

record 'f world =
  files :: "(string \<times> 'f) list"
  stdout :: "out_line list"
  events :: "event list"

text \<open>
  The renderer, the mesh loader, the image codecs and automatic differentiation are
  third-party libraries: they are parameters of the model, collected in a record.
  \<open>render_silhouettes\<close> is the renderer called with \<open>mode='silhouettes'\<close>,
  \<open>render_rgb\<close> the first image of its default mode; both take the renderer's camera
  mode and eye, then the vertices and faces. \<open>grad_loss\<close> is the gradient of the loss
  of \<open>forward\<close> with respect to the camera position, as \<open>loss.backward()\<close> leaves it.
  \<open>encode_gif\<close> is the file that the animation writer writes for the frames it was
  given, in the order it was given them; how many frames that file holds is the
  writer's matter.
\<close>

record 'f lib =
  load_obj :: "'f \<Rightarrow> error + (tfloat tensor \<times> int tensor)"
  decode_image :: "'f \<Rightarrow> error + nat tensor"
  encode_image :: "tfloat tensor \<Rightarrow> error + 'f"
  encode_gif :: "nat tensor list \<Rightarrow> 'f"
  render_silhouettes :: "string \<Rightarrow> tfloat list \<Rightarrow> tfloat tensor \<Rightarrow> int tensor \<Rightarrow> tfloat tensor"
  render_rgb ::
    "string \<Rightarrow> tfloat list \<Rightarrow> tfloat tensor \<Rightarrow> int tensor \<Rightarrow> tfloat tensor \<Rightarrow> tfloat tensor"
  grad_loss :: "string \<Rightarrow> tfloat list \<Rightarrow> tfloat tensor \<Rightarrow> int tensor \<Rightarrow> tfloat list"
  get_points_from_angles :: "real \<Rightarrow> real \<Rightarrow> real \<Rightarrow> tfloat list"

section \<open>The model\<close>

text \<open>
  \<open>renderer.eye = self.camera_position\<close> binds the renderer's eye to the parameter
  object itself, so the optimizer's updates of the parameter are the renderer's eye;
  \<open>make_reference_image\<close> rebinds the eye to a value of its own.
\<close>

datatype eye_binding = CameraPositionParam | EyeValue "tfloat list"

record renderer =
  camera_mode :: string
  eye :: eye_binding

record model =
  vertices :: "tfloat tensor"
  faces :: "int tensor"
  textures :: "tfloat tensor"
  image_ref :: "tfloat tensor"
  camera_position :: "tfloat list"
  renderer :: renderer

definition renderer_eye :: "model \<Rightarrow> tfloat list" where
  "renderer_eye m =
     (case eye (renderer m) of CameraPositionParam \<Rightarrow> camera_position m | EyeValue v \<Rightarrow> v)"

definition silhouette :: "'f lib \<Rightarrow> model \<Rightarrow> tfloat tensor" where
  "silhouette lib m =
     render_silhouettes lib (camera_mode (renderer m)) (renderer_eye m) (vertices m) (faces m)"

definition forward :: "'f lib \<Rightarrow> model \<Rightarrow> 'f world \<Rightarrow> tfloat \<times> 'f world" where
  "forward lib m w =
     (let image = silhouette lib m;
          entropy = fmul (tmean (tmap entr image)) (Fin 10);
          loss = fdiv (Fin 1) entropy
      in (loss, w\<lparr>stdout := stdout w @ [ShapeEntropyLine entropy, LossLine loss]\<rparr>))"

section \<open>Entropy loss variants\<close>

text \<open>
  \<open>entropy_loss\<close>, the histogram entropy. \<open>residual[i].flatten()\<close> is the \<open>i\<close>-th
  block of the data; \<open>torch.unique(..., return_counts=True)\<close> gives the distinct values in
  ascending order and how often each occurs. The elements are only compared and counted,
  so their type is any linear order (a float that is not NaN). The shape is read at
  the indices 0 to 3, so a tensor of fewer than four axes is an IndexError. The line
  the function prints (the shape) is left out of the model.
\<close>

definition sample :: "'a tensor \<Rightarrow> nat \<Rightarrow> 'a list" where
  "sample t i =
     (let sz = prod_list (tl (shape t)) in take sz (drop (i * sz) (data t)))"

definition unique_counts :: "'a::linorder list \<Rightarrow> nat list" where
  "unique_counts xs = map (count_list xs) (sort (remdups xs))"

definition sample_entropy :: "real \<Rightarrow> 'a::linorder list \<Rightarrow> tfloat" where
  "sample_entropy image_size xs =
     (let counts = unique_counts xs;
          p = map (\<lambda>c. fdiv (Fin (real c)) (Fin image_size)) counts
      in fmul (fsum (map (\<lambda>x. fmul x (flog2 x)) p)) (Fin (- 1)))"

definition entropy_loss :: "'a::linorder tensor \<Rightarrow> error + tfloat" where
  "entropy_loss residual =
     (if length (shape residual) < 4 then Inl IndexError
      else
        let image_size = real (shape residual ! 1 * shape residual ! 2 * shape residual ! 3);
            entropy = map (\<lambda>i. sample_entropy image_size (sample residual i))
                        [0..<shape residual ! 0]
        in Inr (tmean \<lparr>shape = [shape residual ! 0, 1], data = entropy\<rparr>))"

text \<open>
  \<open>entropy\<close>, the general entropy. \<open>p * p.log()\<close> is computed at every location, also
  where it is NaN, and \<open>torch.where\<close> selects the element of \<open>p.new([0.0])\<close>, a tensor of
  one element that is broadcast, where \<open>p > 0\<close> is false. The sum runs along the axis
  \<open>dim\<close> (here \<open>dim'\<close>), counted from the end when negative. \<open>keepdim\<close> is a Boolean
  or \<open>None\<close>, the default of the function: \<open>sum\<close> takes a Boolean only and raises a
  TypeError for \<open>None\<close>.
\<close>

definition tmul :: "tfloat tensor \<Rightarrow> tfloat tensor \<Rightarrow> tfloat tensor" where
  "tmul a b = \<lparr>shape = shape a, data = map2 fmul (data a) (data b)\<rparr>"

definition twhere_bcast1 :: "bool tensor \<Rightarrow> tfloat tensor \<Rightarrow> tfloat \<Rightarrow> tfloat tensor" where
  "twhere_bcast1 c x y =
     \<lparr>shape = (if shape c = [] then [1] else shape c),
      data = map2 (\<lambda>b v. if b then v else y) (data c) (data x)\<rparr>"

definition norm_dim :: "nat \<Rightarrow> int \<Rightarrow> nat option" where
  "norm_dim r dim' =
     (if - int r \<le> dim' \<and> dim' < int r then Some (nat (if dim' < 0 then dim' + int r else dim'))
      else None)"

definition tsum_dim :: "tfloat tensor \<Rightarrow> int \<Rightarrow> bool \<Rightarrow> error + tfloat tensor" where
  "tsum_dim t dim' keepdim =
     (if shape t = [] then (if dim' = 0 \<or> dim' = - 1 then Inr t else Inl IndexError)
      else case norm_dim (length (shape t)) dim' of
        None \<Rightarrow> Inl IndexError
      | Some d \<Rightarrow>
          let outer = prod_list (take d (shape t));
              n = shape t ! d;
              inner = prod_list (drop (Suc d) (shape t))
          in Inr \<lparr>shape = take d (shape t) @ (if keepdim then [1] else []) @ drop (Suc d) (shape t),
                  data = concat (map (\<lambda>out. map (\<lambda>i.
                           fsum (map (\<lambda>j. data t ! ((out * n + j) * inner + i)) [0..<n]))
                           [0..<inner]) [0..<outer])\<rparr>)"

definition contributions :: "tfloat tensor \<Rightarrow> tfloat tensor" where
  "contributions p =
     twhere_bcast1 (tmap (\<lambda>x. fgt x (Fin 0)) p) (tmul p (tmap fln p)) (Fin 0)"

definition entropy :: "tfloat tensor \<Rightarrow> int \<Rightarrow> bool option \<Rightarrow> error + tfloat tensor" where
  "entropy p dim' keepdim =
     (case keepdim of
        None \<Rightarrow> Inl TypeError
      | Some keep \<Rightarrow>
          (case tsum_dim (contributions p) dim' keep of
             Inl e \<Rightarrow> Inl e
           | Inr s \<Rightarrow> Inr (tmap fneg s)))"

section \<open>Constructing the model\<close>

text \<open>
  \<open>imread(f).max(-1)\<close>: the maximum along the last axis of the array. For an array
  without axes it is the element itself; numpy raises for a last axis of length zero.
\<close>

fun list_max :: "'a::linorder list \<Rightarrow> 'a" where
  "list_max [] = undefined"
| "list_max (x # xs) = fold max xs x"

definition amax_last :: "'a::linorder tensor \<Rightarrow> error + 'a tensor" where
  "amax_last a =
     (if shape a = [] then Inr a
      else if last (shape a) = 0 then Inl ValueError
      else
        let n = last (shape a); outer = prod_list (butlast (shape a))
        in Inr \<lparr>shape = butlast (shape a),
                data = map (\<lambda>i. list_max (take n (drop (i * n) (data a)))) [0..<outer]\<rparr>)"

text \<open>
  \<open>torch.from_numpy((a.max(-1) != 0).astype(np.float32))\<close>. A maximum without axes
  is a numpy scalar, not an array, and \<open>torch.from_numpy\<close> raises a TypeError for it.
\<close>

definition reference_mask :: "nat tensor \<Rightarrow> error + tfloat tensor" where
  "reference_mask a =
     (case amax_last a of
        Inl e \<Rightarrow> Inl e
      | Inr mx \<Rightarrow>
          if shape mx = [] then Inl TypeError
          else Inr (tmap (\<lambda>v. if v \<noteq> 0 then Fin 1 else Fin 0) mx))"

text \<open>
  Reading a file: a path that names no file is an error, and so is the filename \<open>None\<close>,
  the default of \<open>filename_ref\<close>.
\<close>

definition read_file :: "'f world \<Rightarrow> string \<Rightarrow> error + 'f" where
  "read_file w path =
     (case map_of (files w) path of None \<Rightarrow> Inl (FileNotFoundError path) | Some c \<Rightarrow> Inr c)"

definition imread :: "'f lib \<Rightarrow> 'f world \<Rightarrow> string option \<Rightarrow> error + nat tensor" where
  "imread lib w filename =
     (case filename of
        None \<Rightarrow> Inl InvalidFilename
      | Some path \<Rightarrow> (case read_file w path of Inl e \<Rightarrow> Inl e | Inr c \<Rightarrow> decode_image lib c))"

definition Model_init :: "'f lib \<Rightarrow> 'f world \<Rightarrow> string \<Rightarrow> string option \<Rightarrow> error + model" where
  "Model_init lib w filename_obj filename_ref =
     (case read_file w filename_obj of Inl e \<Rightarrow> Inl e | Inr c \<Rightarrow>
      case load_obj lib c of Inl e \<Rightarrow> Inl e | Inr (vs, fs) \<Rightarrow>
      case unsqueeze0 vs of Inl e \<Rightarrow> Inl e | Inr vertices' \<Rightarrow>
      case unsqueeze0 fs of Inl e \<Rightarrow> Inl e | Inr faces' \<Rightarrow>
      case imread lib w filename_ref of Inl e \<Rightarrow> Inl e | Inr img \<Rightarrow>
      case reference_mask img of Inl e \<Rightarrow> Inl e | Inr ref_mask \<Rightarrow>
        Inr \<lparr>vertices = vertices',
             faces = faces',
             textures = \<lparr>shape = [1, shape faces' ! 1, 2, 2, 2, 3],
                         data = replicate (1 * shape faces' ! 1 * 2 * 2 * 2 * 3) (Fin 1)\<rparr>,
             image_ref = ref_mask,
             camera_position = [Fin 6, Fin 10, Fin (- 14)],
             renderer = \<lparr>camera_mode = ''look_at'', eye = CameraPositionParam\<rparr>\<rparr>)"

section \<open>The optimizer\<close>

text \<open>
  The optimizer updates float32 tensors, and whether a small update moves a parameter
  is a matter of rounding: its arithmetic is modelled with the rounding of float32.
  \<open>f32_round\<close> rounds a real number to the nearest float32, ties to the even
  significand: 24 significant bits, exponents from -126 (below which the spacing stays
  \<open>2^-149\<close>) to 127, and infinity when the rounded magnitude reaches \<open>2^128\<close>.
\<close>

definition rne :: "real \<Rightarrow> int" where
  "rne x =
     (let f = \<lfloor>x\<rfloor>; r = x - of_int f
      in if r < 1 / 2 then f else if 1 / 2 < r then f + 1 else if even f then f else f + 1)"

definition f32_exponent :: "real \<Rightarrow> int" where
  "f32_exponent x = max \<lfloor>log 2 \<bar>x\<bar>\<rfloor> (- 126)"

definition f32_round :: "real \<Rightarrow> tfloat" where
  "f32_round x =
     (if x = 0 then Fin 0
      else
        let u = 2 powr (of_int (f32_exponent x) - 23);
            y = of_int (rne (x / u)) * u
        in if 2 ^ 128 \<le> \<bar>y\<bar> then (if 0 < x then PInf else NInf) else Fin y)"

fun fround :: "tfloat \<Rightarrow> tfloat" where
  "fround (Fin x) = f32_round x"
| "fround x = x"

text \<open>
  \<open>torch.optim.Adam(model.parameters(), lr=0.1)\<close>. The only parameter of the model is the
  camera position: the mesh, the textures and the reference image are registered as
  buffers. Adam is library code; its step is modelled after the algorithm the library
  documents, with the defaults the script leaves in place (\<open>betas = (0.9, 0.999)\<close>,
  \<open>eps = 1e-8\<close>, no weight decay, no amsgrad). The state is created with zero moments.
  Every operation on tensor elements rounds its exact result to float32. The scalars
  that Python computes (the betas, the bias corrections, the step size) are taken at
  their exact values and rounded to float32 where they enter a tensor operation.
\<close>

record adam_state =
  step_count :: nat
  exp_avg :: "tfloat list"
  exp_avg_sq :: "tfloat list"

definition adam_init :: "tfloat list \<Rightarrow> adam_state" where
  "adam_init param =
     \<lparr>step_count = 0, exp_avg = map (\<lambda>_. Fin 0) param, exp_avg_sq = map (\<lambda>_. Fin 0) param\<rparr>"

definition beta1 :: real where "beta1 = 9 / 10"
definition beta2 :: real where "beta2 = 999 / 1000"
definition eps :: real where "eps = 1 / 100000000"

text \<open>\<open>exp_avg.mul_(beta1).add_(grad, alpha=1 - beta1)\<close>, for one element.\<close>

definition adam_avg :: "tfloat \<Rightarrow> tfloat \<Rightarrow> tfloat" where
  "adam_avg m g =
     fround (fadd (fround (fmul m (f32_round beta1))) (fround (fmul (f32_round (1 - beta1)) g)))"

text \<open>\<open>exp_avg_sq.mul_(beta2).addcmul_(grad, grad, value=1 - beta2)\<close>, for one element.\<close>

definition adam_avg_sq :: "tfloat \<Rightarrow> tfloat \<Rightarrow> tfloat" where
  "adam_avg_sq v g =
     fround (fadd (fround (fmul v (f32_round beta2)))
                  (fround (fmul (fround (fmul (f32_round (1 - beta2)) g)) g)))"

text \<open>\<open>(exp_avg_sq.sqrt() / bias_correction2_sqrt).add_(eps)\<close>, for one element.\<close>

definition adam_denom :: "real \<Rightarrow> tfloat \<Rightarrow> tfloat" where
  "adam_denom bias_correction2_sqrt v =
     fround (fadd (fround (fdiv (fround (fsqrt v)) (f32_round bias_correction2_sqrt)))
                  (f32_round eps))"

text \<open>\<open>param.addcdiv_(exp_avg, denom, value=-step_size)\<close>, for one element.\<close>

definition adam_addcdiv :: "real \<Rightarrow> tfloat \<Rightarrow> tfloat \<Rightarrow> tfloat \<Rightarrow> tfloat" where
  "adam_addcdiv step_size p m d =
     fround (fadd p (fround (fdiv (fround (fmul (f32_round (- step_size)) m)) d)))"

definition adam_step ::
  "real \<Rightarrow> adam_state \<Rightarrow> tfloat list \<Rightarrow> tfloat list \<Rightarrow> tfloat list \<times> adam_state" where
  "adam_step lr st grad param =
     (let t = step_count st + 1;
          exp_avg' = map2 adam_avg (exp_avg st) grad;
          exp_avg_sq' = map2 adam_avg_sq (exp_avg_sq st) grad;
          bias_correction1 = 1 - beta1 ^ t;
          bias_correction2 = 1 - beta2 ^ t;
          step_size = lr / bias_correction1;
          bias_correction2_sqrt = sqrt bias_correction2;
          denom = map (adam_denom bias_correction2_sqrt) exp_avg_sq';
          param' = map2 (\<lambda>p (m, d). adam_addcdiv step_size p m d) param (zip exp_avg' denom)
      in (param', \<lparr>step_count = t, exp_avg = exp_avg', exp_avg_sq = exp_avg_sq'\<rparr>))"

section \<open>The training loop\<close>

text \<open>\<open>'/tmp/_tmp_%04d.png' % i\<close>: the decimal digits of \<open>i\<close>, padded with zeros to four.\<close>

fun dec_digits :: "nat \<Rightarrow> string" where
  "dec_digits n =
     (if n < 10 then [''0123456789'' ! n]
      else dec_digits (n div 10) @ [''0123456789'' ! (n mod 10)])"

declare dec_digits.simps [simp del]

definition fmt04d :: "nat \<Rightarrow> string" where
  "fmt04d n = (let s = dec_digits n in replicate (4 - length s) CHR ''0'' @ s)"

definition frame_path :: "nat \<Rightarrow> string" where
  "frame_path i = ''/tmp/_tmp_'' @ fmt04d i @ ''.png''"

text \<open>\<open>a[0]\<close>, the first block along the first axis, and \<open>a.transpose(1, 2, 0)\<close> of an
  array of three axes.\<close>

definition select0 :: "'a tensor \<Rightarrow> error + 'a tensor" where
  "select0 a =
     (case shape a of
        [] \<Rightarrow> Inl IndexError
      | n # rest \<Rightarrow>
          if n = 0 then Inl IndexError
          else Inr \<lparr>shape = rest, data = take (prod_list rest) (data a)\<rparr>)"

definition transpose_120 :: "'a tensor \<Rightarrow> error + 'a tensor" where
  "transpose_120 a =
     (case shape a of
        [c, h, w] \<Rightarrow>
          Inr \<lparr>shape = [h, w, c],
               data = concat (map (\<lambda>i. map (\<lambda>k. data a ! ((k * h + i div w) * w + i mod w)) [0..<c])
                               [0..<h * w])\<rparr>
      | _ \<Rightarrow> Inl ValueError)"

text \<open>\<open>imsave\<close> creates the file or replaces its content.\<close>

definition imsave :: "'f lib \<Rightarrow> string \<Rightarrow> tfloat tensor \<Rightarrow> 'f world \<Rightarrow> error option \<times> 'f world" where
  "imsave lib path img w =
     (case encode_image lib img of
        Inl e \<Rightarrow> (Some e, w)
      | Inr c \<Rightarrow> (None, w\<lparr>files := AList.update path c (files w)\<rparr>))"

text \<open>
  One iteration of the loop of \<open>main\<close>, up to the test of the loss. The state is the
  model, the optimizer and the world. An exception ends the iteration where it is
  raised: the result names it, with the state reached.
\<close>

type_synonym 'f train_state = "model \<times> adam_state \<times> 'f world"

definition world_of :: "'f train_state \<Rightarrow> 'f world" where
  "world_of s = snd (snd s)"

definition train_step ::
  "'f lib \<Rightarrow> nat \<Rightarrow> 'f train_state \<Rightarrow> tfloat \<times> error option \<times> 'f train_state" where
  "train_step lib i s =
     (case s of (m, opt, w) \<Rightarrow>
      let (loss, w1) = forward lib m w;
          grad = grad_loss lib (camera_mode (renderer m)) (renderer_eye m) (vertices m) (faces m);
          (param', opt') = adam_step (1 / 10) opt grad (camera_position m);
          m' = m\<lparr>camera_position := param'\<rparr>;
          images = render_rgb lib (camera_mode (renderer m')) (renderer_eye m') (vertices m')
                     (faces m') (tmap ftanh (textures m'))
      in case select0 images of Inl e \<Rightarrow> (loss, Some e, (m', opt', w1)) | Inr first \<Rightarrow>
         case transpose_120 first of Inl e \<Rightarrow> (loss, Some e, (m', opt', w1)) | Inr img \<Rightarrow>
         case imsave lib (frame_path i) img w1 of (err, w2) \<Rightarrow> (loss, err, (m', opt', w2)))"

text \<open>\<open>for i in range(1000): ...; if loss.item() < 70: break\<close>, for any range.\<close>

fun train_loop :: "'f lib \<Rightarrow> nat list \<Rightarrow> 'f train_state \<Rightarrow> error option \<times> 'f train_state" where
  "train_loop lib [] s = (None, s)"
| "train_loop lib (i # rest) s =
     (case train_step lib i s of
        (loss, Some e, s') \<Rightarrow> (Some e, s')
      | (loss, None, s') \<Rightarrow> if flt loss (Fin 70) then (None, s') else train_loop lib rest s')"

text \<open>The losses on the standard output, one for each call of \<open>forward\<close>.\<close>

fun printed_losses :: "out_line list \<Rightarrow> tfloat list" where
  "printed_losses [] = []"
| "printed_losses (LossLine l # ls) = l # printed_losses ls"
| "printed_losses (ShapeEntropyLine e # ls) = printed_losses ls"

section \<open>The GIF assembler\<close>

text \<open>
  \<open>glob.glob('/tmp/_tmp_*.png')\<close>: the files of \<open>/tmp\<close> whose name starts with \<open>_tmp_\<close>
  and ends with \<open>.png\<close>, in directory order; \<open>sorted\<close> orders the paths as strings.
\<close>

definition matches_tmp_png :: "string \<Rightarrow> bool" where
  "matches_tmp_png p =
     (14 \<le> length p \<and> take 10 p = ''/tmp/_tmp_'' \<and> drop (length p - 4) p = ''.png''
      \<and> CHR ''/'' \<notin> set (drop 10 p))"

definition glob_tmp_png :: "'f world \<Rightarrow> string list" where
  "glob_tmp_png w = filter matches_tmp_png (map fst (files w))"

text \<open>
  The body of the \<open>with\<close> block: each frame is read, appended to the writer and removed.
  The result is the exception raised, if any, the frames appended and the world.
\<close>

fun append_frames ::
  "'f lib \<Rightarrow> string list \<Rightarrow> nat tensor list \<Rightarrow> 'f world \<Rightarrow> error option \<times> nat tensor list \<times> 'f world" where
  "append_frames lib [] frames w = (None, frames, w)"
| "append_frames lib (filename # rest) frames w =
     (case imread lib w (Some filename) of
        Inl e \<Rightarrow> (Some e, frames, w)
      | Inr frame \<Rightarrow>
          let w1 = w\<lparr>events := events w @ [AppendData filename]\<rparr>
          in (case map_of (files w1) filename of
                None \<Rightarrow> (Some (FileNotFoundError filename), frames @ [frame], w1)
              | Some c \<Rightarrow>
                  append_frames lib rest (frames @ [frame])
                    (w1\<lparr>files := AList.delete filename (files w1),
                        events := events w1 @ [Remove filename]\<rparr>)))"

text \<open>
  When the block completes, the writer is closed and the output file holds what the
  writer encodes of the frames it was given; a writer that was given no frame creates
  no file. What the writer leaves in the output file when the block raises is not
  modelled, nor is a failure to open the writer.
\<close>

definition make_gif :: "'f lib \<Rightarrow> string \<Rightarrow> 'f world \<Rightarrow> error option \<times> 'f world" where
  "make_gif lib filename w =
     (case append_frames lib (sort (glob_tmp_png w)) [] w of
        (Some e, frames, w1) \<Rightarrow> (Some e, w1)
      | (None, frames, w1) \<Rightarrow>
          (None, if frames = [] then w1
                 else w1\<lparr>files := AList.update filename (encode_gif lib frames) (files w1)\<rparr>))"

section \<open>The program\<close>

definition make_reference_image ::
  "'f lib \<Rightarrow> string \<Rightarrow> string \<Rightarrow> 'f world \<Rightarrow> error option \<times> 'f world" where
  "make_reference_image lib filename_ref filename_obj w =
     (case Model_init lib w filename_obj None of
        Inl e \<Rightarrow> (Some e, w)
      | Inr m \<Rightarrow>
          let m1 = m\<lparr>renderer := (renderer m)
                      \<lparr>eye := EyeValue (get_points_from_angles lib (2732 / 1000) 30 (- 15))\<rparr>\<rparr>;
              images = render_rgb lib (camera_mode (renderer m1)) (renderer_eye m1) (vertices m1)
                         (faces m1) (tmap ftanh (textures m1))
          in case select0 images of
               Inl e \<Rightarrow> (Some e, w)
             | Inr img \<Rightarrow> imsave lib filename_ref img w)"

record args =
  filename_obj :: string
  filename_ref :: string
  filename_output :: string
  make_reference_image_flag :: int
  gpu :: int

definition main :: "'f lib \<Rightarrow> args \<Rightarrow> 'f world \<Rightarrow> error option \<times> 'f world" where
  "main lib a w =
     (case (if make_reference_image_flag a \<noteq> 0
            then make_reference_image lib (filename_ref a) (filename_obj a) w
            else (None, w)) of
        (Some e, w1) \<Rightarrow> (Some e, w1)
      | (None, w1) \<Rightarrow>
     (case Model_init lib w1 (filename_obj a) (Some (filename_ref a)) of
        Inl e \<Rightarrow> (Some e, w1)
      | Inr m \<Rightarrow>
     (case train_loop lib [0..<1000] (m, adam_init (camera_position m), w1) of
        (Some e, (m', opt', w2)) \<Rightarrow> (Some e, w2)
      | (None, (m', opt', w2)) \<Rightarrow> make_gif lib (filename_output a) w2)))"

section \<open>Example inputs\<close>

text \<open>
  A small instance of the libraries, for concrete runs: files hold decoded arrays, the
  silhouette renderer returns the eye as an image of one row, and the gradient is one
  in every component.
\<close>

definition toy_lib :: "nat tensor lib" where
  "toy_lib =
     \<lparr>load_obj = (\<lambda>c. Inr (\<lparr>shape = [1, 3], data = [Fin 0, Fin 0, Fin 0]\<rparr>,
                            \<lparr>shape = [1, 3], data = [0, 0, 0]\<rparr>)),
      decode_image = Inr,
      encode_image = (\<lambda>t. Inr \<lparr>shape = shape t, data = map (\<lambda>_. 0) (data t)\<rparr>),
      encode_gif = (\<lambda>fs. \<lparr>shape = [length fs], data = concat (map data fs)\<rparr>),
      render_silhouettes = (\<lambda>mode e vs fs. \<lparr>shape = [1, 1, length e], data = e\<rparr>),
      render_rgb = (\<lambda>mode e vs fs tex. \<lparr>shape = [1, 3, 1, 1], data = [Fin 0, Fin 0, Fin 0]\<rparr>),
      grad_loss = (\<lambda>mode e vs fs. map (\<lambda>_. Fin 1) e),
      get_points_from_angles = (\<lambda>d el az. [Fin 0, Fin 0, Fin 0])\<rparr>"

definition toy_model :: "tfloat list \<Rightarrow> model" where
  "toy_model cam =
     \<lparr>vertices = \<lparr>shape = [1, 1, 3], data = [Fin 0, Fin 0, Fin 0]\<rparr>,
      faces = \<lparr>shape = [1, 1, 3], data = [0, 0, 0]\<rparr>,
      textures = \<lparr>shape = [1, 1, 2, 2, 2, 3], data = replicate 24 (Fin 1)\<rparr>,
      image_ref = \<lparr>shape = [1, 1], data = [Fin 1]\<rparr>,
      camera_position = cam,
      renderer = \<lparr>camera_mode = ''look_at'', eye = CameraPositionParam\<rparr>\<rparr>"

definition toy_world :: "nat tensor world" where
  "toy_world = \<lparr>files = [], stdout = [], events = []\<rparr>"

text \<open>A world with a mesh file and a reference image of one row, two pixels, three channels.\<close>

definition ref_world :: "nat tensor world" where
  "ref_world =
     \<lparr>files = [(''teapot.obj'', \<lparr>shape = [0], data = []\<rparr>),
               (''ref.png'', \<lparr>shape = [1, 2, 3], data = [0, 0, 0, 0, 7, 0]\<rparr>)],
      stdout = [], events = []\<rparr>"

text \<open>A world with three frames, listed out of order, and another file in \<open>/tmp\<close>.\<close>

definition gif_world :: "nat tensor world" where
  "gif_world =
     \<lparr>files = [(''/tmp/_tmp_0010.png'', \<lparr>shape = [1], data = [10]\<rparr>),
               (''/tmp/notes.txt'', \<lparr>shape = [1], data = [0]\<rparr>),
               (''/tmp/_tmp_0002.png'', \<lparr>shape = [1], data = [2]\<rparr>),
               (''/tmp/_tmp_0009.png'', \<lparr>shape = [1], data = [9]\<rparr>)],
      stdout = [], events = []\<rparr>"

text \<open>
  An instance in which a file is the list of its frames (an image file holds one) and
  the animation writer merges consecutive frames that are identical, as the writer of
  the Pillow library does; and a world with three frame files that hold the same image.
\<close>

definition merging_lib :: "nat tensor list lib" where
  "merging_lib =
     \<lparr>load_obj = (\<lambda>c. Inl (LibraryError ''obj'')),
      decode_image = (\<lambda>c. case c of [t] \<Rightarrow> Inr t | _ \<Rightarrow> Inl (LibraryError ''image'')),
      encode_image = (\<lambda>t. Inr [\<lparr>shape = shape t, data = map (\<lambda>_. 0) (data t)\<rparr>]),
      encode_gif = remdups_adj,
      render_silhouettes = (\<lambda>mode e vs fs. \<lparr>shape = [1, 1, length e], data = e\<rparr>),
      render_rgb = (\<lambda>mode e vs fs tex. \<lparr>shape = [1, 3, 1, 1], data = [Fin 0, Fin 0, Fin 0]\<rparr>),
      grad_loss = (\<lambda>mode e vs fs. map (\<lambda>_. Fin 1) e),
      get_points_from_angles = (\<lambda>d el az. [Fin 0, Fin 0, Fin 0])\<rparr>"

definition still_world :: "nat tensor list world" where
  "still_world =
     \<lparr>files = [(''/tmp/_tmp_0000.png'', [\<lparr>shape = [1], data = [7]\<rparr>]),
               (''/tmp/_tmp_0001.png'', [\<lparr>shape = [1], data = [7]\<rparr>]),
               (''/tmp/_tmp_0002.png'', [\<lparr>shape = [1], data = [7]\<rparr>])],
      stdout = [], events = []\<rparr>"


section \<open>The loss of the forward pass\<close>

lemma entr_prob: "0 \<le> p \<Longrightarrow> entr (Fin p) = Fin (p * ln (1 / p))"
  by (cases "p = 0") (simp_all add: ln_div)

lemma foldl_fadd_entr:
  "\<forall>p\<in>set ps. 0 \<le> p \<and> p \<le> 1 \<Longrightarrow>
   foldl fadd (Fin a) (map entr (map Fin ps)) = Fin (a + sum_list (map (\<lambda>p. p * ln (1 / p)) ps))"
  by (induction ps arbitrary: a) (simp_all add: entr_prob add.assoc del: entr.simps)

lemma prob_entropy_nonneg:
  fixes p :: real
  assumes "0 \<le> p" "p \<le> 1"
  shows "0 \<le> p * ln (1 / p)"
proof (cases "p = 0")
  case True
  then show ?thesis by simp
next
  case False
  with assms have "1 \<le> 1 / p" by simp
  then have "0 \<le> ln (1 / p)" by (rule ln_ge_zero)
  with assms(1) show ?thesis by (rule mult_nonneg_nonneg)
qed

lemma sum_entropy_nonneg:
  "\<forall>p\<in>set ps. 0 \<le> p \<and> p \<le> (1::real) \<Longrightarrow> 0 \<le> sum_list (map (\<lambda>p. p * ln (1 / p)) ps)"
  by (induction ps) (simp_all add: prob_entropy_nonneg)

lemma forward_loss_value:
  assumes "data (silhouette lib m) = map Fin ps" "ps \<noteq> []" "\<forall>p\<in>set ps. 0 \<le> p \<and> p \<le> 1"
  shows "fst (forward lib m w) =
     fdiv (Fin 1) (Fin (sum_list (map (\<lambda>p. p * ln (1 / p)) ps) / real (length ps) * 10))"
proof -
  have "tmean (tmap entr (silhouette lib m)) =
      Fin (sum_list (map (\<lambda>p. p * ln (1 / p)) ps) / real (length ps))"
    using assms(2) foldl_fadd_entr [OF assms(3), of 0]
    by (simp add: tmean_def tmap_def fsum_def assms(1) del: map_map)
  then show ?thesis
    by (simp add: forward_def Let_def del: fdiv.simps)
qed

text \<open>
  C1. The silhouette is an image of values between 0 and 1. The loss that \<open>forward\<close>
  returns is the reciprocal of ten times the entropy scalar, the mean over the pixels
  of \<open>p * ln (1 / p)\<close>. Of two silhouettes, the one of greater entropy has the smaller
  loss; at entropy zero the loss is plus infinity.
\<close>

theorem forward_loss_reciprocal_entropy:
  assumes "data (silhouette lib m) = map Fin ps" "ps \<noteq> []" "\<forall>p\<in>set ps. 0 \<le> p \<and> p \<le> 1"
    and "data (silhouette lib m') = map Fin ps'" "ps' \<noteq> []" "\<forall>p\<in>set ps'. 0 \<le> p \<and> p \<le> 1"
  shows "fst (forward lib m w) =
       fdiv (Fin 1) (Fin (sum_list (map (\<lambda>p. p * ln (1 / p)) ps) / real (length ps) * 10))
     \<and> (sum_list (map (\<lambda>p. p * ln (1 / p)) ps) / real (length ps)
          < sum_list (map (\<lambda>p. p * ln (1 / p)) ps') / real (length ps')
        \<longrightarrow> flt (fst (forward lib m' w')) (fst (forward lib m w)))"
proof -
  define H where "H = sum_list (map (\<lambda>p. p * ln (1 / p)) ps) / real (length ps)"
  define H' where "H' = sum_list (map (\<lambda>p. p * ln (1 / p)) ps') / real (length ps')"
  have v: "fst (forward lib m w) = fdiv (Fin 1) (Fin (H * 10))"
    unfolding H_def using assms(1-3) by (rule forward_loss_value)
  have v': "fst (forward lib m' w') = fdiv (Fin 1) (Fin (H' * 10))"
    unfolding H'_def using assms(4-6) by (rule forward_loss_value)
  have nonneg: "0 \<le> H"
    unfolding H_def using assms(3) by (simp add: sum_entropy_nonneg)
  have "flt (fdiv (Fin 1) (Fin (H' * 10))) (fdiv (Fin 1) (Fin (H * 10)))" if "H < H'"
  proof (cases "H = 0")
    case True
    with that show ?thesis by simp
  next
    case False
    with nonneg have "0 < H" by simp
    with that show ?thesis by (simp add: frac_less2)
  qed
  with v v' show ?thesis unfolding H_def H'_def by simp
qed

theorem forward_loss_reciprocal_entropy_witness:
  "data (silhouette toy_lib (toy_model [Fin 1])) = map Fin [1]
   \<and> data (silhouette toy_lib (toy_model [Fin (1 / 2)])) = map Fin [1 / 2]
   \<and> fst (forward toy_lib (toy_model [Fin 1]) toy_world) = PInf
   \<and> flt (fst (forward toy_lib (toy_model [Fin (1 / 2)]) toy_world))
         (fst (forward toy_lib (toy_model [Fin 1]) toy_world))"
proof -
  have a: "data (silhouette toy_lib (toy_model [Fin 1])) = map Fin [1]"
    by (simp add: silhouette_def toy_lib_def toy_model_def renderer_eye_def)
  have b: "data (silhouette toy_lib (toy_model [Fin (1 / 2)])) = map Fin [1 / 2]"
    by (simp add: silhouette_def toy_lib_def toy_model_def renderer_eye_def)
  have pos: "(0::real) < ln 2" by simp
  note c = forward_loss_reciprocal_entropy [OF a _ _ b, of toy_world toy_world]
  have v: "fst (forward toy_lib (toy_model [Fin 1]) toy_world) = PInf"
    using c by simp
  have "flt (fst (forward toy_lib (toy_model [Fin (1 / 2)]) toy_world))
         (fst (forward toy_lib (toy_model [Fin 1]) toy_world))"
    using c pos by auto
  with a b v show ?thesis by blast
qed

text \<open>
  C9. The loss does not depend on the reference image: \<open>forward\<close> returns the same loss,
  and prints the same lines, whatever the buffer \<open>image_ref\<close> holds.
\<close>

theorem forward_ignores_image_ref: "forward lib (m\<lparr>image_ref := r\<rparr>) w = forward lib m w"
  by (simp add: forward_def silhouette_def renderer_eye_def split: eye_binding.split)

section \<open>The histogram entropy\<close>

lemma foldl_fadd_replicate: "foldl fadd (Fin a) (replicate n (Fin x)) = Fin (a + real n * x)"
  by (induction n arbitrary: a) (simp_all add: algebra_simps)

lemma fsum_replicate: "fsum (replicate n (Fin x)) = Fin (real n * x)"
  by (simp add: fsum_def foldl_fadd_replicate)

lemma map_const_replicate: "\<forall>x\<in>set xs. f x = y \<Longrightarrow> map f xs = replicate (length xs) y"
  by (induction xs) simp_all

lemma length_sample:
  assumes "wf_tensor t" "shape t = b # rest" "i < b"
  shows "length (sample t i) = prod_list rest"
proof -
  have "i * prod_list rest + prod_list rest \<le> b * prod_list rest"
    using assms(3) by (metis Suc_leI mult_Suc mult_le_mono1 add.commute)
  then show ?thesis
    using assms(1,2) by (simp add: sample_def wf_tensor_def Let_def)
qed

lemma sample_entropy_evenly_split:
  assumes "card (set xs) = k" "0 < k" "\<forall>v\<in>set xs. count_list xs v * k = length xs"
  shows "sample_entropy (real (length xs)) xs = Fin (log 2 (real k))"
proof -
  let ?n = "length xs"
  have ne: "xs \<noteq> []" using assms(1,2) by auto
  then have n: "0 < ?n" by simp
  have cs_len: "length (unique_counts xs) = k"
    using assms(1) by (simp add: unique_counts_def length_remdups_card_conv)
  have p: "fdiv (Fin (real c)) (Fin (real ?n)) = Fin (1 / real k)" if "c \<in> set (unique_counts xs)" for c
  proof -
    from that assms(3) have "c * k = ?n"
      by (auto simp add: unique_counts_def)
    then have "real c * real k = real ?n"
      by (metis of_nat_mult)
    then have "real c / real ?n = 1 / real k"
      using n assms(2) by (simp add: field_simps)
    with n show ?thesis by simp
  qed
  have ps: "map (\<lambda>c. fdiv (Fin (real c)) (Fin (real ?n))) (unique_counts xs) = replicate k (Fin (1 / real k))"
    using map_const_replicate [of "unique_counts xs" "\<lambda>c. fdiv (Fin (real c)) (Fin (real ?n))" "Fin (1 / real k)"]
      p cs_len by simp
  have tm: "fmul (Fin (1 / real k)) (flog2 (Fin (1 / real k))) = Fin (1 / real k * log 2 (1 / real k))"
    using assms(2) by (simp add: flog2_def)
  have "map (\<lambda>x. fmul x (flog2 x)) (map (\<lambda>c. fdiv (Fin (real c)) (Fin (real ?n))) (unique_counts xs))
      = replicate k (Fin (1 / real k * log 2 (1 / real k)))"
    unfolding ps by (simp add: tm del: fmul.simps)
  then have "sample_entropy (real ?n) xs = fmul (Fin (real k * (1 / real k * log 2 (1 / real k)))) (Fin (- 1))"
    by (simp add: sample_entropy_def Let_def fsum_replicate del: fmul.simps fdiv.simps map_map)
  also have "\<dots> = Fin (log 2 (real k))"
    using assms(2) by (simp add: log_divide)
  finally show ?thesis .
qed

text \<open>
  C5. For a tensor of four axes and at least one sample, in which the values of every
  sample are evenly split across \<open>k\<close> distinct values (the sample has \<open>k\<close> distinct
  values and each occurs equally often), \<open>entropy_loss\<close> returns \<open>log2(k)\<close>; for
  \<open>k = 1\<close>, samples of a single value, that is 0.
\<close>

theorem entropy_loss_evenly_split_samples:
  assumes "wf_tensor t" "shape t = [b, c, w, h]" "0 < b" "0 < k"
    and "\<forall>i<b. card (set (sample t i)) = k
           \<and> (\<forall>v\<in>set (sample t i). count_list (sample t i) v * k = length (sample t i))"
  shows "entropy_loss t = Inr (Fin (log 2 (real k)))"
proof -
  have len: "length (sample t i) = c * w * h" if "i < b" for i
    using length_sample [OF assms(1,2) that] by simp
  have "sample_entropy (real (c * w * h)) (sample t i) = Fin (log 2 (real k))" if "i < b" for i
    using sample_entropy_evenly_split [of "sample t i" k] assms(4,5) that len [OF that] by simp
  then have "map (\<lambda>i. sample_entropy (real (c * w * h)) (sample t i)) [0..<b]
      = replicate b (Fin (log 2 (real k)))"
    using map_const_replicate [of "[0..<b]" "\<lambda>i. sample_entropy (real (c * w * h)) (sample t i)"]
    by simp
  then show ?thesis
    using assms(2,3)
    by (simp add: entropy_loss_def Let_def tmean_def fsum_replicate del: of_nat_mult)
qed

theorem entropy_loss_evenly_split_samples_witness:
  "entropy_loss \<lparr>shape = [1, 1, 2, 2], data = [3, 5, 5, 3 :: nat]\<rparr> = Inr (Fin 1)
   \<and> entropy_loss \<lparr>shape = [2, 1, 1, 2], data = [7, 7, 4, 4 :: nat]\<rparr> = Inr (Fin 0)"
proof -
  have "entropy_loss \<lparr>shape = [1, 1, 2, 2], data = [3, 5, 5, 3 :: nat]\<rparr> = Inr (Fin (log 2 (real 2)))"
    by (rule entropy_loss_evenly_split_samples [where b = 1 and c = 1 and w = 2 and h = 2])
      (simp_all add: wf_tensor_def sample_def card_insert_if)
  moreover
  have "entropy_loss \<lparr>shape = [2, 1, 1, 2], data = [7, 7, 4, 4 :: nat]\<rparr> = Inr (Fin (log 2 (real 1)))"
    by (rule entropy_loss_evenly_split_samples [where b = 2 and c = 1 and w = 1 and h = 2])
      (auto simp add: wf_tensor_def sample_def less_Suc_eq numeral_2_eq_2 card_insert_if)
  ultimately show ?thesis by simp
qed

text \<open>
  The entropy is taken for each sample and then averaged. A batch of two samples of one
  pixel each, 0 and 1, has its values evenly split across two distinct values, and
  each sample has entropy 0: the result is 0, not \<open>log2(2) = 1\<close>.
\<close>

theorem entropy_loss_batch_of_two_constant_samples:
  "entropy_loss \<lparr>shape = [2, 1, 1, 1], data = [0, 1 :: nat]\<rparr> = Inr (Fin 0)
   \<and> set [0, 1 :: nat] = {0, 1} \<and> count_list [0, 1 :: nat] 0 = 1 \<and> count_list [0, 1 :: nat] 1 = 1
   \<and> Fin 0 \<noteq> Fin (log 2 2)"
  by (simp add: entropy_loss_def Let_def tmean_def fsum_def sample_def sample_entropy_def
        unique_counts_def flog2_def upt_conv_Cons)

section \<open>The general entropy\<close>

text \<open>
  At a location where the probability is zero, the product \<open>p * p.log()\<close> is NaN:
  the result is finite only because \<open>torch.where\<close> does not select it.
\<close>

lemma foldl_fadd_Fin: "foldl fadd (Fin a) (map Fin ps) = Fin (a + sum_list ps)"
  by (induction ps arbitrary: a) (simp_all add: add.assoc)

lemma fsum_Fin: "fsum (map Fin ps) = Fin (sum_list ps)"
  by (simp add: fsum_def foldl_fadd_Fin)

lemma product_at_zero_is_NaN: "fmul (Fin 0) (fln (Fin 0)) = NaN"
  by (simp add: fln_def inf_times_def)

lemma contributions_data:
  "map2 (\<lambda>b v. if b then v else Fin 0) (map (\<lambda>x. fgt x (Fin 0)) (map Fin ps))
      (map2 fmul (map Fin ps) (map fln (map Fin ps)))
   = map (\<lambda>x. Fin (if 0 < x then x * ln x else 0)) ps"
  by (induction ps) (simp_all add: fgt_def fln_def)

lemma contributions_Fin:
  assumes "data p = map Fin ps" "shape p \<noteq> []"
  shows "contributions p = \<lparr>shape = shape p, data = map (\<lambda>x. Fin (if 0 < x then x * ln x else 0)) ps\<rparr>"
  using assms contributions_data [of ps]
  by (simp add: contributions_def twhere_bcast1_def tmul_def tmap_def del: map_map)

lemma prod_list_split:
  assumes "d < length s"
  shows "prod_list s = prod_list (take d s) * (s ! d) * prod_list (drop (Suc d) s)"
proof -
  have "s = take d s @ (s ! d) # drop (Suc d) s"
    using assms by (rule id_take_nth_drop)
  then have "prod_list s = prod_list (take d s @ (s ! d) # drop (Suc d) s)"
    by simp
  then show ?thesis by (simp add: mult.assoc)
qed

lemma index_in_range:
  fixes out n j inner i outer :: nat
  assumes "out < outer" "j < n" "i < inner"
  shows "(out * n + j) * inner + i < outer * n * inner"
proof -
  have "out * n + j + 1 \<le> outer * n"
    using assms(1,2) by (metis Suc_leI mult_Suc mult_le_mono1 add.commute add_Suc_right Suc_eq_plus1 add_less_cancel_left less_le_trans nat_add_left_cancel_less not_less)
  then have "(out * n + j + 1) * inner \<le> outer * n * inner"
    by (rule mult_le_mono1)
  with assms(3) show ?thesis by (simp add: algebra_simps)
qed

lemma tsum_dim_Fin:
  assumes "length cs = prod_list s" "s \<noteq> []" "norm_dim (length s) dim' = Some d"
  shows "tsum_dim \<lparr>shape = s, data = map Fin cs\<rparr> dim' keepdim =
     Inr \<lparr>shape = take d s @ (if keepdim then [1] else []) @ drop (Suc d) s,
          data = concat (map (\<lambda>out. map (\<lambda>i.
                   Fin (sum_list (map (\<lambda>j. cs ! ((out * (s ! d) + j) * prod_list (drop (Suc d) s) + i))
                                   [0..<s ! d])))
                   [0..<prod_list (drop (Suc d) s)]) [0..<prod_list (take d s)])\<rparr>"
proof -
  let ?outer = "prod_list (take d s)" and ?n = "s ! d" and ?inner = "prod_list (drop (Suc d) s)"
  have d: "d < length s"
    using assms(3) by (auto simp add: norm_dim_def split: if_splits)
  have len: "length cs = ?outer * ?n * ?inner"
    using assms(1) prod_list_split [OF d] by simp
  have "fsum (map (\<lambda>j. map Fin cs ! ((out * ?n + j) * ?inner + i)) [0..<?n])
      = Fin (sum_list (map (\<lambda>j. cs ! ((out * ?n + j) * ?inner + i)) [0..<?n]))"
    if "out < ?outer" "i < ?inner" for out i
  proof -
    have "map (\<lambda>j. map Fin cs ! ((out * ?n + j) * ?inner + i)) [0..<?n]
        = map Fin (map (\<lambda>j. cs ! ((out * ?n + j) * ?inner + i)) [0..<?n])"
      using index_in_range [OF that(1) _ that(2)] len by simp
    then show ?thesis by (simp only: fsum_Fin)
  qed
  then have eq: "map (\<lambda>out. map (\<lambda>i. fsum (map (\<lambda>j. map Fin cs ! ((out * ?n + j) * ?inner + i)) [0..<?n]))
                   [0..<?inner]) [0..<?outer]
      = map (\<lambda>out. map (\<lambda>i. Fin (sum_list (map (\<lambda>j. cs ! ((out * ?n + j) * ?inner + i)) [0..<?n])))
                   [0..<?inner]) [0..<?outer]"
    by simp
  show ?thesis
    using assms(2,3) by (simp add: tsum_dim_def Let_def eq)
qed

text \<open>
  Called with a Boolean \<open>keepdim\<close>, on a well-formed tensor \<open>p\<close> of finite values, of
  at least one axis, and a valid axis \<open>dim\<close>: the contribution of a location is exactly
  0 where the value is 0 (and where it is negative) and \<open>p * ln p\<close> where it is
  positive; the result of \<open>entropy\<close> holds, for each position outside the axis, the
  negated sum of the contributions along the axis. Every element of the result is a
  finite number: no NaN and no infinity.
\<close>

theorem entropy_safe_at_zero:
  assumes "wf_tensor p" "data p = map Fin ps" "shape p \<noteq> []"
    and "norm_dim (length (shape p)) dim' = Some d"
  shows "data (contributions p) = map (\<lambda>x. Fin (if 0 < x then x * ln x else 0)) ps
     \<and> entropy p dim' (Some keepdim) =
         Inr \<lparr>shape = take d (shape p) @ (if keepdim then [1] else []) @ drop (Suc d) (shape p),
              data = concat (map (\<lambda>out. map (\<lambda>i.
                 Fin (- sum_list (map (\<lambda>j.
                    let x = ps ! ((out * (shape p ! d) + j) * prod_list (drop (Suc d) (shape p)) + i)
                    in if 0 < x then x * ln x else 0) [0..<shape p ! d])))
                 [0..<prod_list (drop (Suc d) (shape p))]) [0..<prod_list (take d (shape p))])\<rparr>"
proof -
  let ?c = "\<lambda>x::real. if 0 < x then x * ln x else 0"
  let ?outer = "prod_list (take d (shape p))" and ?n = "shape p ! d"
    and ?inner = "prod_list (drop (Suc d) (shape p))"
  have d: "d < length (shape p)"
    using assms(4) by (auto simp add: norm_dim_def split: if_splits)
  have len: "length ps = ?outer * ?n * ?inner"
    using assms(1,2) prod_list_split [OF d] by (simp add: wf_tensor_def)
  have contr: "contributions p = \<lparr>shape = shape p, data = map Fin (map ?c ps)\<rparr>"
    using contributions_Fin [OF assms(2,3)] by simp
  have len': "length (map ?c ps) = prod_list (shape p)"
    using assms(1,2) by (simp add: wf_tensor_def)
  have nth: "map ?c ps ! ((out * ?n + j) * ?inner + i) = ?c (ps ! ((out * ?n + j) * ?inner + i))"
    if "out < ?outer" "j < ?n" "i < ?inner" for out j i
    using index_in_range [OF that] len by simp
  have "sum_list (map (\<lambda>j. map ?c ps ! ((out * ?n + j) * ?inner + i)) [0..<?n])
      = sum_list (map (\<lambda>j. ?c (ps ! ((out * ?n + j) * ?inner + i))) [0..<?n])"
    if "out < ?outer" "i < ?inner" for out i
  proof -
    have "map (\<lambda>j. map ?c ps ! ((out * ?n + j) * ?inner + i)) [0..<?n]
      = map (\<lambda>j. ?c (ps ! ((out * ?n + j) * ?inner + i))) [0..<?n]"
      using nth [OF that(1) _ that(2)] by simp
    then show ?thesis by (rule arg_cong)
  qed
  then have eq: "map (\<lambda>out. map (\<lambda>i. Fin (sum_list (map (\<lambda>j. map ?c ps ! ((out * ?n + j) * ?inner + i)) [0..<?n])))
                   [0..<?inner]) [0..<?outer]
      = map (\<lambda>out. map (\<lambda>i. Fin (sum_list (map (\<lambda>j. ?c (ps ! ((out * ?n + j) * ?inner + i))) [0..<?n])))
                   [0..<?inner]) [0..<?outer]"
    by simp
  have "tsum_dim (contributions p) dim' keepdim =
     Inr \<lparr>shape = take d (shape p) @ (if keepdim then [1] else []) @ drop (Suc d) (shape p),
          data = concat (map (\<lambda>out. map (\<lambda>i.
                   Fin (sum_list (map (\<lambda>j. ?c (ps ! ((out * ?n + j) * ?inner + i))) [0..<?n])))
                   [0..<?inner]) [0..<?outer])\<rparr>"
    unfolding contr tsum_dim_Fin [OF len' assms(3,4)] by (simp add: eq)
  then have "entropy p dim' (Some keepdim) =
     Inr \<lparr>shape = take d (shape p) @ (if keepdim then [1] else []) @ drop (Suc d) (shape p),
          data = concat (map (\<lambda>out. map (\<lambda>i.
                   Fin (- sum_list (map (\<lambda>j. ?c (ps ! ((out * ?n + j) * ?inner + i))) [0..<?n])))
                   [0..<?inner]) [0..<?outer])\<rparr>"
    by (simp add: entropy_def tmap_def map_concat comp_def)
  then show ?thesis
    using contr by (simp add: Let_def comp_def)
qed

theorem entropy_safe_at_zero_witness:
  "wf_tensor \<lparr>shape = [2, 2], data = [Fin 0, Fin (1 / 2), Fin 1, Fin 0]\<rparr>
   \<and> norm_dim 2 (- 1) = Some 1
   \<and> fmul (Fin 0) (fln (Fin 0)) = NaN
   \<and> data (contributions \<lparr>shape = [2, 2], data = [Fin 0, Fin (1 / 2), Fin 1, Fin 0]\<rparr>)
       = [Fin 0, Fin (1 / 2 * ln (1 / 2)), Fin 0, Fin 0]
   \<and> entropy \<lparr>shape = [2, 2], data = [Fin 0, Fin (1 / 2), Fin 1, Fin 0]\<rparr> (- 1) (Some False)
       = Inr \<lparr>shape = [2], data = [Fin (- (1 / 2 * ln (1 / 2))), Fin 0]\<rparr>"
proof -
  let ?p = "\<lparr>shape = [2, 2], data = [Fin 0, Fin (1 / 2), Fin 1, Fin 0]\<rparr>"
  have wf: "wf_tensor ?p"
    by (simp add: wf_tensor_def)
  have nd: "norm_dim 2 (- 1) = Some 1"
    by (simp add: norm_dim_def)
  have nan: "fmul (Fin 0) (fln (Fin 0)) = NaN"
    by (simp add: fln_def inf_times_def)
  have dt: "data ?p = map Fin [0, 1 / 2, 1, 0]"
    by simp
  have sh: "shape ?p \<noteq> []"
    by simp
  have nd': "norm_dim (length (shape ?p)) (- 1) = Some 1"
    by (simp add: norm_dim_def)
  note t = entropy_safe_at_zero [OF wf dt sh nd', of False]
  have a: "data (contributions ?p) = [Fin 0, Fin (1 / 2 * ln (1 / 2)), Fin 0, Fin 0]"
    using t by simp
  have b: "entropy ?p (- 1) (Some False) = Inr \<lparr>shape = [2], data = [Fin (- (1 / 2 * ln (1 / 2))), Fin 0]\<rparr>"
    using t by (simp add: upt_conv_Cons Let_def)
  from wf nd nan a b show ?thesis by (intro conjI)
qed

text \<open>
  C6. \<open>entropy\<close> is declared with the default \<open>keepdim=None\<close> and passes it on to
  \<open>sum\<close>. A call that leaves \<open>keepdim\<close> out therefore returns no entropy at all: for
  every tensor and every axis it ends in a TypeError, also for a probability tensor
  with zeros, for which the contributions would be 0 and the result finite.
\<close>

theorem entropy_default_keepdim_raises: "entropy p dim' None = Inl TypeError"
  by (simp add: entropy_def)

section \<open>The training loop: termination and stopping\<close>

text \<open>
  Every iteration calls \<open>forward\<close> once, which prints the loss: the losses that a run
  of the loop adds to the standard output are its iterations, in order.
\<close>

lemma printed_losses_append:
  "printed_losses (xs @ ys) = printed_losses xs @ printed_losses ys"
  by (induction xs rule: printed_losses.induct) simp_all

lemma forward_stdout:
  "printed_losses (stdout (snd (forward lib m w))) = printed_losses (stdout w) @ [fst (forward lib m w)]"
  by (simp add: forward_def Let_def printed_losses_append)

lemma train_step_loss: "fst (train_step lib i (m, opt, w)) = fst (forward lib m w)"
  by (simp add: train_step_def Let_def split: prod.split sum.split)

lemma train_step_stdout:
  "stdout (world_of (snd (snd (train_step lib i (m, opt, w))))) = stdout (snd (forward lib m w))"
  by (auto simp add: train_step_def world_of_def Let_def imsave_def split: prod.split sum.split)

lemma train_step_printed:
  assumes "train_step lib i s = (loss, err, s')"
  shows "printed_losses (stdout (world_of s')) = printed_losses (stdout (world_of s)) @ [loss]"
proof -
  obtain m opt w where s: "s = (m, opt, w)" by (cases s) auto
  have "loss = fst (forward lib m w)"
    using assms train_step_loss [of lib i m opt w] by (simp add: s)
  moreover have "stdout (world_of s') = stdout (snd (forward lib m w))"
    using assms train_step_stdout [of lib i m opt w] by (simp add: s)
  ultimately show ?thesis
    by (simp add: forward_stdout s world_of_def)
qed

lemma train_loop_losses:
  "\<exists>ls. printed_losses (stdout (world_of (snd (train_loop lib is s))))
           = printed_losses (stdout (world_of s)) @ ls
      \<and> length ls \<le> length is
      \<and> (is \<noteq> [] \<longrightarrow> ls \<noteq> [])
      \<and> (\<forall>l\<in>set (butlast ls). \<not> flt l (Fin 70))
      \<and> (fst (train_loop lib is s) = None \<and> length ls < length is \<longrightarrow> flt (last ls) (Fin 70))"
proof (induction "is" arbitrary: s)
  case Nil
  show ?case by simp
next
  case (Cons i rest)
  obtain loss err s1 where step: "train_step lib i s = (loss, err, s1)"
    by (cases "train_step lib i s") auto
  note printed = train_step_printed [OF step]
  show ?case
  proof (cases "err = None \<and> \<not> flt loss (Fin 70)")
    case False
    then have "snd (train_loop lib (i # rest) s) = s1"
      and "fst (train_loop lib (i # rest) s) = None \<longrightarrow> flt loss (Fin 70)"
      using step by (auto split: option.split)
    with printed show ?thesis
      by (intro exI [of _ "[loss]"]) simp
  next
    case True
    then have loop: "train_loop lib (i # rest) s = train_loop lib rest s1"
      using step by simp
    from Cons.IH [of s1] obtain ls where
      ls: "printed_losses (stdout (world_of (snd (train_loop lib rest s1))))
             = printed_losses (stdout (world_of s1)) @ ls"
        "length ls \<le> length rest"
        "rest \<noteq> [] \<longrightarrow> ls \<noteq> []"
        "\<forall>l\<in>set (butlast ls). \<not> flt l (Fin 70)"
        "fst (train_loop lib rest s1) = None \<and> length ls < length rest \<longrightarrow> flt (last ls) (Fin 70)"
      by blast
    have "printed_losses (stdout (world_of (snd (train_loop lib (i # rest) s))))
           = printed_losses (stdout (world_of s)) @ (loss # ls)"
      using ls(1) printed loop by simp
    moreover have "length (loss # ls) \<le> length (i # rest)"
      using ls(2) by simp
    moreover have "\<forall>l\<in>set (butlast (loss # ls)). \<not> flt l (Fin 70)"
      using ls(4) True by simp
    moreover have "flt (last (loss # ls)) (Fin 70)"
      if "fst (train_loop lib (i # rest) s) = None" "length (loss # ls) < length (i # rest)"
    proof -
      from that(2) have short: "length ls < length rest" by simp
      then have "rest \<noteq> []" by auto
      with ls(3) have "ls \<noteq> []" by simp
      moreover have "flt (last ls) (Fin 70)"
        using ls(5) short that(1) loop by simp
      ultimately show ?thesis by simp
    qed
    ultimately show ?thesis
      by (intro exI [of _ "loss # ls"]) simp
  qed
qed

text \<open>
  C3. The training loop terminates within its bound: whatever the libraries return and
  whatever the losses are, a run of the loop of \<open>main\<close> executes at most 1000
  iterations.
\<close>

theorem training_loop_at_most_1000_iterations:
  "length (printed_losses (stdout (world_of (snd (train_loop lib [0..<1000] s)))))
     \<le> length (printed_losses (stdout (world_of s))) + 1000"
proof -
  obtain ls where
    "printed_losses (stdout (world_of (snd (train_loop lib [0..<1000] s))))
       = printed_losses (stdout (world_of s)) @ ls"
    and "length ls \<le> length [0..<1000]"
    using train_loop_losses [of lib "[0..<1000]" s] by blast
  then show ?thesis by (simp del: upt_rec_numeral)
qed





section \<open>Rounding to float32\<close>

text \<open>Rounding to the nearest integer moves a number by at most one half.\<close>

lemma rne_near: "\<bar>of_int (rne x) - x\<bar> \<le> 1 / 2"
proof -
  have "0 \<le> x - of_int \<lfloor>x\<rfloor>" "x - of_int \<lfloor>x\<rfloor> < 1"
    by linarith+
  then show ?thesis
    by (auto simp add: rne_def Let_def)
qed

lemma rne_small: "\<bar>x\<bar> < 1 / 2 \<Longrightarrow> rne x = 0"
proof -
  assume a: "\<bar>x\<bar> < 1 / 2"
  have "\<bar>real_of_int (rne x)\<bar> \<le> \<bar>of_int (rne x) - x\<bar> + \<bar>x\<bar>"
    by linarith
  with rne_near [of x] a have "\<bar>real_of_int (rne x)\<bar> < 1" by linarith
  then show ?thesis by linarith
qed

lemma rne_bound: "\<bar>real_of_int (rne x)\<bar> \<le> 2 * \<bar>x\<bar>"
proof (cases "\<bar>x\<bar> < 1 / 2")
  case True
  then show ?thesis by (simp add: rne_small)
next
  case False
  have "\<bar>real_of_int (rne x)\<bar> \<le> \<bar>of_int (rne x) - x\<bar> + \<bar>x\<bar>"
    by linarith
  with rne_near [of x] False show ?thesis by linarith
qed


text \<open>
  Rounding to float32: the result of a bounded number is finite and at most twice as
  large, a number below half the smallest subnormal rounds to zero, and a float32 plus
  less than half its unit in the last place rounds back to it.
\<close>

lemma f32_unit_pos: "0 < (2::real) powr (of_int (f32_exponent x) - 23)"
  by simp


lemma f32_round_bound:
  assumes "\<bar>x\<bar> \<le> b" "b < 2 ^ 127"
  shows "\<exists>y. f32_round x = Fin y \<and> \<bar>y\<bar> \<le> 2 * b"
proof (cases "x = 0")
  case True
  with assms show ?thesis by (simp add: f32_round_def)
next
  case False
  define u where "u = (2::real) powr (of_int (f32_exponent x) - 23)"
  define y where "y = of_int (rne (x / u)) * u"
  have u: "0 < u" by (simp add: u_def)
  have "\<bar>y\<bar> = \<bar>real_of_int (rne (x / u))\<bar> * u"
    using u by (simp add: y_def abs_mult)
  also have "\<dots> \<le> (2 * \<bar>x / u\<bar>) * u"
    using rne_bound [of "x / u"] u by (intro mult_right_mono) simp_all
  also have "\<dots> = 2 * \<bar>x\<bar>"
    using u by simp
  finally have y: "\<bar>y\<bar> \<le> 2 * \<bar>x\<bar>" .
  with assms have "\<bar>y\<bar> \<le> 2 * b" "\<bar>y\<bar> < 2 ^ 128" by simp_all
  then show ?thesis
    using False by (simp add: f32_round_def Let_def u_def [symmetric] y_def [symmetric])
qed









lemma fround_bound:
  assumes "\<bar>x\<bar> \<le> b" "b < 2 ^ 127"
  shows "\<exists>y. fround (Fin x) = Fin y \<and> \<bar>y\<bar> \<le> 2 * b"
  using f32_round_bound [OF assms] by simp





section \<open>The training step\<close>






section \<open>The reference mask\<close>

lemma list_max_Max: "xs \<noteq> [] \<Longrightarrow> list_max xs = Max (set xs)"
  by (cases xs) (simp_all add: Max.set_eq_fold [symmetric])

lemma amax_last_3d:
  assumes "shape a = [h, w, c]" "0 < c"
  shows "amax_last a = Inr \<lparr>shape = [h, w],
           data = map (\<lambda>i. list_max (take c (drop (i * c) (data a)))) [0..<h * w]\<rparr>"
  using assms by (simp add: amax_last_def Let_def)

lemma reference_mask_values:
  assumes "reference_mask a = Inr m"
  shows "set (data m) \<subseteq> {Fin 0, Fin 1}"
  using assms by (auto simp add: reference_mask_def tmap_def split: sum.splits if_splits)

lemma pixel_nonempty:
  assumes "length xs = h * w * c" "0 < c" "i < h * w"
  shows "take c (drop (i * c) xs) \<noteq> []"
proof -
  have "i * c + c \<le> h * w * c"
    using assms(3) by (metis Suc_leI mult_Suc mult_le_mono1 add.commute)
  with assms show ?thesis by auto
qed

lemma reference_mask_3d:
  assumes "wf_tensor a" "shape a = [h, w, c]" "0 < c" "reference_mask a = Inr m"
  shows "shape m = [h, w] \<and>
     (\<forall>i<h * w. data m ! i =
        (if Max (set (take c (drop (i * c) (data a)))) \<noteq> 0 then Fin 1 else Fin 0))"
proof -
  have len: "length (data a) = h * w * c"
    using assms(1,2) by (simp add: wf_tensor_def)
  have m: "m = tmap (\<lambda>v. if v \<noteq> 0 then Fin 1 else Fin 0)
      \<lparr>shape = [h, w], data = map (\<lambda>i. list_max (take c (drop (i * c) (data a)))) [0..<h * w]\<rparr>"
    using assms(4) amax_last_3d [OF assms(2,3)] by (simp add: reference_mask_def)
  show ?thesis
    using pixel_nonempty [OF len assms(3)] by (simp add: m tmap_def list_max_Max)
qed

lemma Model_init_image_ref:
  assumes "Model_init lib wd fobj fref = Inr m"
  shows "\<exists>a. imread lib wd fref = Inr a \<and> reference_mask a = Inr (image_ref m)"
  using assms by (auto simp add: Model_init_def split: sum.splits prod.splits)

text \<open>
  When the model is constructed, the reference image was read, and the stored mask
  holds no value other than 0.0 and 1.0. For an image with a channel axis (an array of
  height, width and at least one channel), the mask has one element for each pixel: 1.0
  when the maximum of the pixel's channel values is not zero, 0.0 otherwise.
\<close>

theorem stored_reference_mask_binary:
  assumes "Model_init lib wd fobj fref = Inr m"
  shows "\<exists>a. imread lib wd fref = Inr a
     \<and> set (data (image_ref m)) \<subseteq> {Fin 0, Fin 1}
     \<and> (\<forall>h w c. wf_tensor a \<and> shape a = [h, w, c] \<and> 0 < c \<longrightarrow>
           shape (image_ref m) = [h, w] \<and>
           (\<forall>i<h * w. data (image_ref m) ! i =
              (if Max (set (take c (drop (i * c) (data a)))) \<noteq> 0 then Fin 1 else Fin 0)))"
proof -
  obtain a where a: "imread lib wd fref = Inr a" "reference_mask a = Inr (image_ref m)"
    using Model_init_image_ref [OF assms] by blast
  show ?thesis
    using a reference_mask_values [OF a(2)] reference_mask_3d [OF _ _ _ a(2)] by blast
qed

theorem stored_reference_mask_binary_witness:
  "Model_init toy_lib ref_world ''teapot.obj'' (Some ''ref.png'')
     = Inr ((toy_model [Fin 6, Fin 10, Fin (- 14)])\<lparr>image_ref := \<lparr>shape = [1, 2], data = [Fin 0, Fin 1]\<rparr>\<rparr>)
   \<and> imread toy_lib ref_world (Some ''ref.png'') = Inr \<lparr>shape = [1, 2, 3], data = [0, 0, 0, 0, 7, 0]\<rparr>
   \<and> wf_tensor \<lparr>shape = [1, 2, 3], data = [0, 0, 0, 0, 7, 0 :: nat]\<rparr>
   \<and> Max (set (take 3 (drop (1 * 3) [0, 0, 0, 0, 7, 0 :: nat]))) \<noteq> 0
   \<and> data (image_ref ((toy_model [Fin 6, Fin 10, Fin (- 14)])
          \<lparr>image_ref := \<lparr>shape = [1, 2], data = [Fin 0, Fin 1]\<rparr>\<rparr>)) ! 1 = Fin 1"
proof -
  let ?m = "(toy_model [Fin 6, Fin 10, Fin (- 14)])\<lparr>image_ref := \<lparr>shape = [1, 2], data = [Fin 0, Fin 1]\<rparr>\<rparr>"
  let ?a = "\<lparr>shape = [1, 2, 3], data = [0, 0, 0, 0, 7, 0 :: nat]\<rparr>"
  have rd: "imread toy_lib ref_world (Some ''ref.png'') = Inr ?a"
    by (simp add: imread_def read_file_def ref_world_def toy_lib_def)
  have obj: "read_file ref_world ''teapot.obj'' = Inr \<lparr>shape = [0], data = []\<rparr>"
    by (simp add: read_file_def ref_world_def)
  have ld: "load_obj toy_lib c = Inr (\<lparr>shape = [1, 3], data = [Fin 0, Fin 0, Fin 0]\<rparr>,
                            \<lparr>shape = [1, 3], data = [0, 0, 0]\<rparr>)" for c
    by (simp add: toy_lib_def)
  have msk: "reference_mask ?a = Inr \<lparr>shape = [1, 2], data = [Fin 0, Fin 1]\<rparr>"
    by (simp add: reference_mask_def amax_last_def tmap_def Let_def upt_conv_Cons)
  have init: "Model_init toy_lib ref_world ''teapot.obj'' (Some ''ref.png'') = Inr ?m"
    using rd obj msk by (simp add: Model_init_def ld toy_model_def unsqueeze0_def)
  have wf: "wf_tensor ?a"
    by (simp add: wf_tensor_def)
  have mx: "Max (set (take 3 (drop (1 * 3) [0, 0, 0, 0, 7, 0 :: nat]))) \<noteq> 0"
    by simp
  from stored_reference_mask_binary [OF init] rd
  have "\<forall>h w c. wf_tensor ?a \<and> shape ?a = [h, w, c] \<and> 0 < c \<longrightarrow>
           (\<forall>i<h * w. data (image_ref ?m) ! i =
              (if Max (set (take c (drop (i * c) (data ?a)))) \<noteq> 0 then Fin 1 else Fin 0))"
    by auto
  then have "\<forall>i<1 * 2. data (image_ref ?m) ! i =
              (if Max (set (take 3 (drop (i * 3) (data ?a)))) \<noteq> 0 then Fin 1 else Fin 0)"
    using wf by simp
  then have "data (image_ref ?m) ! 1 =
              (if Max (set (take 3 (drop (1 * 3) (data ?a)))) \<noteq> 0 then Fin 1 else Fin 0)"
    by (metis one_less_numeral_iff semiring_norm(76) mult_1)
  with mx have "data (image_ref ?m) ! 1 = Fin 1"
    by simp
  with init rd wf mx show ?thesis by blast
qed

text \<open>
  C8. The mask is meant to hold, for each pixel, whether the maximum of its channel
  values is not zero. The maximum runs along the last axis, whatever that axis is, and
  a grayscale image is an array of height and width only: here the image has one row
  of two pixels, 0 and 5, and the mask is the single element 1.0, one for the row. The
  pixel of value 0 has no element 0.0: on this image the code does not compute the
  mask of the pixels.
\<close>

theorem grayscale_reference_mask_per_row:
  "reference_mask \<lparr>shape = [1, 2], data = [0, 5]\<rparr> = Inr \<lparr>shape = [1], data = [Fin 1]\<rparr>"
  by (simp add: reference_mask_def amax_last_def tmap_def Let_def)

section \<open>The GIF assembler: order and deletion of the frames\<close>

lemma imread_Some:
  "imread lib w (Some p) = Inr frame \<longleftrightarrow>
     (\<exists>c. map_of (files w) p = Some c \<and> decode_image lib c = Inr frame)"
  by (auto simp add: imread_def read_file_def split: option.splits)

lemma append_frames_run:
  assumes "append_frames lib ps frames w = (None, frames', w')" "distinct ps"
  shows "\<exists>fs. frames' = frames @ fs
     \<and> list_all2 (\<lambda>p f. \<exists>c. map_of (files w) p = Some c \<and> decode_image lib c = Inr f) ps fs
     \<and> (\<forall>q. map_of (files w') q = (if q \<in> set ps then None else map_of (files w) q))
     \<and> events w' = events w @ concat (map (\<lambda>p. [AppendData p, Remove p]) ps)
     \<and> stdout w' = stdout w"
  using assms
proof (induction ps arbitrary: frames w)
  case Nil
  then show ?case by simp
next
  case (Cons p rest)
  from Cons.prems(1) obtain frame where rd: "imread lib w (Some p) = Inr frame"
    by (cases "imread lib w (Some p)") auto
  then obtain c where c: "map_of (files w) p = Some c" "decode_image lib c = Inr frame"
    by (auto simp add: imread_Some)
  define w2 where "w2 = w\<lparr>events := events w @ [AppendData p],
      files := AList.delete p (files w),
      events := events w @ [AppendData p] @ [Remove p]\<rparr>"
  have rec: "append_frames lib rest (frames @ [frame]) w2 = (None, frames', w')"
    using Cons.prems(1) rd c(1) by (simp add: w2_def)
  from Cons.prems(2) have d: "distinct rest" "p \<notin> set rest" by simp_all
  from Cons.IH [OF rec d(1)] obtain fs where
    fs: "frames' = (frames @ [frame]) @ fs"
      "list_all2 (\<lambda>p f. \<exists>c. map_of (files w2) p = Some c \<and> decode_image lib c = Inr f) rest fs"
      "\<forall>q. map_of (files w') q = (if q \<in> set rest then None else map_of (files w2) q)"
      "events w' = events w2 @ concat (map (\<lambda>p. [AppendData p, Remove p]) rest)"
      "stdout w' = stdout w2"
    by blast
  have files2: "map_of (files w2) q = (if q = p then None else map_of (files w) q)" for q
    by (simp add: w2_def AList.delete_conv')
  have "list_all2 (\<lambda>p f. \<exists>c. map_of (files w) p = Some c \<and> decode_image lib c = Inr f) rest fs"
    using fs(2) by (rule list_all2_mono) (auto simp add: files2 split: if_splits)
  with c have "list_all2 (\<lambda>p f. \<exists>c. map_of (files w) p = Some c \<and> decode_image lib c = Inr f)
      (p # rest) (frame # fs)"
    by simp
  moreover have "frames' = frames @ (frame # fs)"
    using fs(1) by simp
  moreover have "\<forall>q. map_of (files w') q = (if q \<in> set (p # rest) then None else map_of (files w) q)"
    using fs(3) by (simp add: files2)
  moreover have "events w' = events w @ concat (map (\<lambda>p. [AppendData p, Remove p]) (p # rest))"
    using fs(4) by (simp add: w2_def)
  moreover have "stdout w' = stdout w"
    using fs(5) by (simp add: w2_def)
  ultimately show ?case by blast
qed

lemma glob_sorted:
  assumes "distinct (map fst (files w))"
  shows "sorted (sort (glob_tmp_png w))" "distinct (sort (glob_tmp_png w))"
    "set (sort (glob_tmp_png w)) = {p \<in> fst ` set (files w). matches_tmp_png p}"
  using assms by (auto simp add: glob_tmp_png_def)

text \<open>
  C7. In a file system whose paths are distinct, with an output path that is not itself
  a frame path, a successful run of \<open>make_gif\<close> processes the frame files in
  ascending order of their paths as strings (for zero-padded numbers, their numeric
  order): each is read and given to the writer and removed right after, before the
  next one is read. The writer has been given exactly one frame for each source file,
  in that order; no frame file is left, and no other file is changed. The output file
  is what the writer makes of these frames, and it is not written when no file
  matched.
\<close>

theorem make_gif_frames_in_order:
  assumes "make_gif lib out w = (None, w')" "distinct (map fst (files w))" "\<not> matches_tmp_png out"
  shows "\<exists>ps frames.
       ps = sort (glob_tmp_png w) \<and> sorted ps \<and> distinct ps
     \<and> set ps = {p \<in> fst ` set (files w). matches_tmp_png p}
     \<and> list_all2 (\<lambda>p f. \<exists>c. map_of (files w) p = Some c \<and> decode_image lib c = Inr f) ps frames
     \<and> events w' = events w @ concat (map (\<lambda>p. [AppendData p, Remove p]) ps)
     \<and> map_of (files w') out
         = (if frames = [] then map_of (files w) out else Some (encode_gif lib frames))
     \<and> (\<forall>p. matches_tmp_png p \<longrightarrow> map_of (files w') p = None)
     \<and> (\<forall>q. \<not> matches_tmp_png q \<and> q \<noteq> out \<longrightarrow> map_of (files w') q = map_of (files w) q)"
proof -
  define ps where "ps = sort (glob_tmp_png w)"
  note g = glob_sorted [OF assms(2), folded ps_def]
  from assms(1) obtain frames w1 where
    run: "append_frames lib ps [] w = (None, frames, w1)"
    and w': "w' = (if frames = [] then w1
                   else w1\<lparr>files := AList.update out (encode_gif lib frames) (files w1)\<rparr>)"
    by (auto simp add: make_gif_def ps_def split: prod.splits option.splits)
  from append_frames_run [OF run g(2)] have
    fs: "list_all2 (\<lambda>p f. \<exists>c. map_of (files w) p = Some c \<and> decode_image lib c = Inr f) ps frames"
      "\<forall>q. map_of (files w1) q = (if q \<in> set ps then None else map_of (files w) q)"
      "events w1 = events w @ concat (map (\<lambda>p. [AppendData p, Remove p]) ps)"
    by auto
  have out: "out \<notin> set ps"
    using g(3) assms(3) by auto
  have files': "map_of (files w') q = (if q = out \<and> frames \<noteq> [] then Some (encode_gif lib frames)
        else if q \<in> set ps then None else map_of (files w) q)" for q
    using fs(2) by (simp add: w' AList.update_conv')
  have gone: "map_of (files w') p = None" if "matches_tmp_png p" for p
  proof (cases "p \<in> fst ` set (files w)")
    case True
    with that g(3) have "p \<in> set ps" by simp
    with that assms(3) show ?thesis by (auto simp add: files')
  next
    case False
    then have "map_of (files w) p = None" by (simp add: map_of_eq_None_iff)
    with that assms(3) show ?thesis by (auto simp add: files')
  qed
  have kept: "map_of (files w') q = map_of (files w) q" if "\<not> matches_tmp_png q" "q \<noteq> out" for q
    using that g(3) by (auto simp add: files')
  have written: "map_of (files w') out
         = (if frames = [] then map_of (files w) out else Some (encode_gif lib frames))"
    using out by (simp add: files')
  have ev: "events w' = events w @ concat (map (\<lambda>p. [AppendData p, Remove p]) ps)"
    using fs(3) by (simp add: w')
  show ?thesis
    using g fs(1) ev written gone kept
    by (intro exI [of _ ps] exI [of _ frames]) (simp add: ps_def)
qed

text \<open>The three frames of \<open>gif_world\<close>, listed out of order, are assembled in order.\<close>

lemma gif_world_sorted_glob:
  "sort (glob_tmp_png gif_world) =
     [''/tmp/_tmp_0002.png'', ''/tmp/_tmp_0009.png'', ''/tmp/_tmp_0010.png'']"
  by code_simp

lemma gif_world_run: "fst (make_gif toy_lib ''/data/result.gif'' gif_world) = None"
  unfolding make_gif_def gif_world_sorted_glob
  by (simp add: gif_world_def imread_def read_file_def toy_lib_def AList.delete_eq)

theorem make_gif_frames_in_order_witness:
  "fst (make_gif toy_lib ''/data/result.gif'' gif_world) = None
   \<and> distinct (map fst (files gif_world))
   \<and> \<not> matches_tmp_png ''/data/result.gif''
   \<and> sort (glob_tmp_png gif_world) =
       [''/tmp/_tmp_0002.png'', ''/tmp/_tmp_0009.png'', ''/tmp/_tmp_0010.png'']
   \<and> map_of (files (snd (make_gif toy_lib ''/data/result.gif'' gif_world))) ''/data/result.gif''
       = Some (encode_gif toy_lib [\<lparr>shape = [1], data = [2]\<rparr>, \<lparr>shape = [1], data = [9]\<rparr>,
                                   \<lparr>shape = [1], data = [10]\<rparr>])
   \<and> events (snd (make_gif toy_lib ''/data/result.gif'' gif_world)) =
       [AppendData ''/tmp/_tmp_0002.png'', Remove ''/tmp/_tmp_0002.png'',
        AppendData ''/tmp/_tmp_0009.png'', Remove ''/tmp/_tmp_0009.png'',
        AppendData ''/tmp/_tmp_0010.png'', Remove ''/tmp/_tmp_0010.png'']
   \<and> map_of (files (snd (make_gif toy_lib ''/data/result.gif'' gif_world))) ''/tmp/_tmp_0009.png''
       = None"
proof -
  let ?w' = "snd (make_gif toy_lib ''/data/result.gif'' gif_world)"
  have run: "make_gif toy_lib ''/data/result.gif'' gif_world = (None, ?w')"
    using gif_world_run by (simp add: prod_eq_iff)
  have d: "distinct (map fst (files gif_world))"
    by (simp add: gif_world_def)
  have out: "\<not> matches_tmp_png ''/data/result.gif''"
    by (simp add: matches_tmp_png_def)
  have frame: "matches_tmp_png ''/tmp/_tmp_0009.png''"
    by (simp add: matches_tmp_png_def)
  from make_gif_frames_in_order [OF run d out] obtain frames where
    fs: "list_all2 (\<lambda>p f. \<exists>c. map_of (files gif_world) p = Some c \<and> decode_image toy_lib c = Inr f)
          (sort (glob_tmp_png gif_world)) frames"
      "map_of (files ?w') ''/data/result.gif''
         = (if frames = [] then map_of (files gif_world) ''/data/result.gif''
            else Some (encode_gif toy_lib frames))"
      "events ?w' = events gif_world
         @ concat (map (\<lambda>p. [AppendData p, Remove p]) (sort (glob_tmp_png gif_world)))"
      "\<forall>p. matches_tmp_png p \<longrightarrow> map_of (files ?w') p = None"
    by blast
  from fs(1) have fr: "frames = [\<lparr>shape = [1], data = [2]\<rparr>, \<lparr>shape = [1], data = [9]\<rparr>,
                                   \<lparr>shape = [1], data = [10]\<rparr>]"
    unfolding gif_world_sorted_glob
    by (auto simp add: list_all2_Cons1 gif_world_def toy_lib_def)
  from fs(2) have a: "map_of (files ?w') ''/data/result.gif''
       = Some (encode_gif toy_lib [\<lparr>shape = [1], data = [2]\<rparr>, \<lparr>shape = [1], data = [9]\<rparr>,
                                   \<lparr>shape = [1], data = [10]\<rparr>])"
    by (simp add: fr)
  from fs(3) have b: "events ?w' =
       [AppendData ''/tmp/_tmp_0002.png'', Remove ''/tmp/_tmp_0002.png'',
        AppendData ''/tmp/_tmp_0009.png'', Remove ''/tmp/_tmp_0009.png'',
        AppendData ''/tmp/_tmp_0010.png'', Remove ''/tmp/_tmp_0010.png'']"
    unfolding gif_world_sorted_glob by (simp add: gif_world_def)
  from fs(4) frame have c: "map_of (files ?w') ''/tmp/_tmp_0009.png'' = None"
    by blast
  from gif_world_run d out gif_world_sorted_glob a b c show ?thesis
    by (intro conjI)
qed

lemma still_world_sorted_glob:
  "sort (glob_tmp_png still_world) =
     [''/tmp/_tmp_0000.png'', ''/tmp/_tmp_0001.png'', ''/tmp/_tmp_0002.png'']"
  by code_simp

text \<open>
  How many frames the output file holds is the writer's matter. With a writer that
  merges consecutive identical frames, three frame files that hold the same image give
  an output file of one frame.
\<close>

theorem merging_writer_keeps_one_frame:
  "length (sort (glob_tmp_png still_world)) = 3
   \<and> fst (make_gif merging_lib ''/data/result.gif'' still_world) = None
   \<and> map_of (files (snd (make_gif merging_lib ''/data/result.gif'' still_world))) ''/data/result.gif''
       = Some [\<lparr>shape = [1], data = [7]\<rparr>]"
  unfolding make_gif_def still_world_sorted_glob
  by (simp add: still_world_def imread_def read_file_def merging_lib_def AList.delete_eq)

section \<open>The command line\<close>

text \<open>
  C10. The program does not depend on \<open>--gpu\<close>: two runs whose arguments differ only
  in that value end with the same result and the same world.
\<close>

theorem main_ignores_gpu: "main lib (a\<lparr>gpu := g\<rparr>) w = main lib a w"
  by (simp add: main_def del: upt_rec_numeral
      cong: prod.case_cong sum.case_cong option.case_cong if_cong)

end
